theory Spec2Isabelle
  imports Complex_Main "HOL-Library.AList"
begin

section \<open>Python values and exceptions\<close>

text \<open>
  The services pass dictionaries of loosely typed values around (tracking information,
  provider responses). A dictionary is an association list with distinct keys, in insertion
  order, as a Python \<open>dict\<close> keeps it; \<open>d[k] = v\<close> is \<open>AList.update k v d\<close>
  (the key keeps its place when present, and is appended otherwise).
\<close>

datatype py_value =
    PyNone
  | PyBool bool
  | PyStr string
  | PyNum real
  | PyList "py_value list"
  | PyDict "(string \<times> py_value) list"

type_synonym py_dict = "(string \<times> py_value) list"

text \<open>\<open>self.update(other)\<close>: the entries of \<open>other\<close> are stored one by one, in its order.\<close>

definition dict_update :: "py_dict \<Rightarrow> py_dict \<Rightarrow> py_dict" where
  "dict_update self other = fold (\<lambda>(k, v). AList.update k v) other self"

text \<open>The exceptions the notification service raises or catches, with their messages.\<close>

datatype exn =
    ValueError string
  | TypeError string
  | AttributeError string
  | SecurityError string
  | EmailNotValidError string
  | NumberParseException string
  | TwilioRestException int string
  | BadDeviceToken
  | RetryError exn
  | HTTPException nat string
  | OtherException string

section \<open>models/notification.py\<close>

datatype NotificationType =
    TRANSACTION_ALERT
  | SECURITY_ALERT
  | MINING_UPDATE
  | MARKETING
  | SYSTEM_UPDATE

datatype NotificationStatus = PENDING | SENT | DELIVERED | READ | FAILED

text \<open>The enum members are strings; these are their values.\<close>

fun type_value :: "NotificationType \<Rightarrow> string" where
  "type_value TRANSACTION_ALERT = ''transaction_alert''"
| "type_value SECURITY_ALERT = ''security_alert''"
| "type_value MINING_UPDATE = ''mining_update''"
| "type_value MARKETING = ''marketing''"
| "type_value SYSTEM_UPDATE = ''system_update''"

fun status_value :: "NotificationStatus \<Rightarrow> string" where
  "status_value PENDING = ''pending''"
| "status_value SENT = ''sent''"
| "status_value DELIVERED = ''delivered''"
| "status_value READ = ''read''"
| "status_value FAILED = ''failed''"

text \<open>
  \<open>NotificationStatus.validate_transition\<close>: the dictionary \<open>valid_transitions\<close> of the
  method, looked up with \<open>.get(current, [])\<close>, and the membership test \<open>new in ...\<close>.
\<close>

definition valid_transitions :: "(NotificationStatus \<times> NotificationStatus list) list" where
  "valid_transitions =
     [(PENDING, [SENT, FAILED]),
      (SENT, [DELIVERED, FAILED]),
      (DELIVERED, [READ, FAILED]),
      (READ, [FAILED]),
      (FAILED, [])]"

definition validate_transition :: "NotificationStatus \<Rightarrow> NotificationStatus \<Rightarrow> bool" where
  "validate_transition current new =
     (new \<in> set (case map_of valid_transitions current of None \<Rightarrow> [] | Some allowed \<Rightarrow> allowed))"

text \<open>
  The \<open>Notification\<close> model. Times (\<open>datetime\<close> values) are seconds on the real line;
  the clock reading \<open>datetime.utcnow()\<close> is passed to the operations that take it.
\<close>

record Notification =
  notification_id :: string
  user_id :: string
  notification_type :: NotificationType
  title :: string
  message :: string
  status :: NotificationStatus
  metadata :: py_dict
  created_at :: real
  sent_at :: "real option"
  delivered_at :: "real option"
  read_at :: "real option"
  error_message :: "string option"
  delivery_info :: py_dict

text \<open>
  \<open>Notification.update_status\<close>. The method mutates \<open>self\<close> and returns nothing or
  raises; the model returns the exception raised, if any, together with the object as the
  call leaves it. The message of the \<open>ValueError\<close> names the two statuses by their values.
\<close>

definition update_status ::
  "Notification \<Rightarrow> NotificationStatus \<Rightarrow> string option \<Rightarrow> py_dict option \<Rightarrow> real
     \<Rightarrow> exn option \<times> Notification"
where
  "update_status self new_status error_msg info now =
     (if \<not> validate_transition (status self) new_status then
        (Some (ValueError (''Invalid status transition from '' @ status_value (status self)
                           @ '' to '' @ status_value new_status)), self)
      else
        let s1 = self\<lparr>status := new_status\<rparr>;
            s2 = (if new_status = SENT then s1\<lparr>sent_at := Some now\<rparr>
                  else if new_status = DELIVERED then s1\<lparr>delivered_at := Some now\<rparr>
                  else if new_status = FAILED then s1\<lparr>error_message := error_msg\<rparr>
                  else s1);
            s3 = (case info of
                    None \<Rightarrow> s2
                  | Some d \<Rightarrow>
                      if d = [] then s2
                      else s2\<lparr>delivery_info := dict_update (delivery_info s2) d\<rparr>)
        in (None, s3))"

section \<open>services/email\_service.py: the rate limiter\<close>

text \<open>
  \<open>RateLimiter\<close>: the two limits given to the constructor, the window of 3600 seconds it
  fixes, and the list of admitted timestamps. \<open>acquire\<close> reads the clock once
  (\<open>now\<close>), prunes the list, and either refuses or appends \<open>now\<close>.
\<close>

record RateLimiter =
  max_per_hour :: int
  max_burst :: int
  window_size :: real
  requests :: "real list"

definition RateLimiter_init :: "int \<Rightarrow> int \<Rightarrow> RateLimiter" where
  "RateLimiter_init mph mb =
     \<lparr>max_per_hour = mph, max_burst = mb, window_size = 3600, requests = []\<rparr>"

definition acquire :: "RateLimiter \<Rightarrow> real \<Rightarrow> bool \<times> RateLimiter" where
  "acquire self now =
     (let self1 = self\<lparr>requests := filter (\<lambda>ts. now - ts \<le> window_size self) (requests self)\<rparr>
      in if int (length (requests self1)) \<ge> max_per_hour self1 then (False, self1)
         else if int (length (requests self1))
                   - int (length (filter (\<lambda>ts. now - ts \<le> 60) (requests self1)))
                 \<ge> max_burst self1
         then (False, self1)
         else (True, self1\<lparr>requests := requests self1 @ [now]\<rparr>))"

text \<open>Successive calls of \<open>acquire\<close> on one limiter, at the given clock readings.\<close>

fun acquire_calls :: "RateLimiter \<Rightarrow> real list \<Rightarrow> bool list \<times> RateLimiter" where
  "acquire_calls self [] = ([], self)"
| "acquire_calls self (t # ts) =
     (case acquire self t of
        (r, self1) \<Rightarrow> (case acquire_calls self1 ts of (rs, self2) \<Rightarrow> (r # rs, self2)))"

text \<open>The timestamps of a limiter that lie in the trailing window ending at \<open>t\<close>.\<close>

definition in_window :: "RateLimiter \<Rightarrow> real \<Rightarrow> real list" where
  "in_window self t = filter (\<lambda>ts. t - ts \<le> window_size self) (requests self)"

section \<open>services/push\_notification.py\<close>

text \<open>
  The Redis store the service keeps its device tokens in: per user the list under
  \<open>device_tokens:<user>\<close> (the head is the most recent \<open>lpush\<close>), per platform the set
  \<open>blacklisted_tokens:<platform>\<close>. The store is taken as reliable: its commands do not
  raise, and every stored entry is the JSON that \<open>register_device\<close> wrote. Key expiry is
  real time and is not modelled.
\<close>

record token_data =
  token :: string
  platform :: string
  registered_at :: real
  last_used :: real
  token_status :: string

record push_store =
  device_tokens :: "string \<Rightarrow> token_data list"
  blacklisted_tokens :: "string \<Rightarrow> string set"

definition batch_size :: nat where
  "batch_size = 500"

definition max_retries :: nat where
  "max_retries = 3"

text \<open>
  \<open>register_device\<close>: an unknown platform raises \<open>ValueError\<close> inside the \<open>try\<close>, which
  the handler turns into \<open>False\<close>; a blacklisted token is refused; with five or more tokens
  stored, \<open>ltrim(key, -4, -1)\<close> keeps the last four before the new one is pushed in front.
\<close>

definition register_device ::
  "push_store \<Rightarrow> string \<Rightarrow> string \<Rightarrow> string \<Rightarrow> real \<Rightarrow> bool \<times> push_store"
where
  "register_device st user device_token plat now =
     (if plat \<notin> set [''ios'', ''android''] then (False, st)
      else if device_token \<in> blacklisted_tokens st plat then (False, st)
      else
        let entry = \<lparr>token = device_token, platform = plat, registered_at = now,
                     last_used = now, token_status = ''active''\<rparr>;
            tokens = device_tokens st user;
            kept = (if length tokens \<ge> 5 then drop (length tokens - 4) tokens else tokens)
        in (True, st\<lparr>device_tokens := (device_tokens st)(user := entry # kept)\<rparr>))"

text \<open>
  The providers are outside the repository. What a call to them does is a parameter: the
  reply of APNS to one token at one attempt, and the reply of FCM to one batch at one attempt
  (the per-token successes of \<open>batch_response.responses\<close>, or an exception).
\<close>

datatype apns_reply = ApnsAccepted | ApnsBadDeviceToken | ApnsFailure string

datatype fcm_reply = FcmBatch "bool list" | FcmFailure string

type_synonym apns_provider = "string \<Rightarrow> nat \<Rightarrow> apns_reply"

type_synonym fcm_provider = "string list \<Rightarrow> nat \<Rightarrow> fcm_reply"

text \<open>One entry of the \<open>results\<close> list of \<open>_send_apns\<close>, and a response dictionary.\<close>

record apns_result =
  result_token :: string
  result_success :: bool
  result_error :: "string option"

record push_response =
  response_success :: bool
  response_results :: "py_value list"
  response_error :: "string option"

definition apns_result_value :: "apns_result \<Rightarrow> py_value" where
  "apns_result_value r =
     PyDict ([(''token'', PyStr (result_token r)), (''success'', PyBool (result_success r))]
             @ (case result_error r of None \<Rightarrow> [] | Some e \<Rightarrow> [(''error'', PyStr e)]))"

definition response_value :: "push_response \<Rightarrow> py_value" where
  "response_value r =
     PyDict ([(''success'', PyBool (response_success r)),
              (''results'', PyList (response_results r))]
             @ (case response_error r of None \<Rightarrow> [] | Some e \<Rightarrow> [(''error'', PyStr e)]))"

text \<open>\<open>str(e)\<close> of an exception: its message.\<close>

fun exn_message :: "exn \<Rightarrow> string" where
  "exn_message (ValueError m) = m"
| "exn_message (TypeError m) = m"
| "exn_message (AttributeError m) = m"
| "exn_message (SecurityError m) = m"
| "exn_message (EmailNotValidError m) = m"
| "exn_message (NumberParseException m) = m"
| "exn_message (TwilioRestException code m) = m"
| "exn_message BadDeviceToken = []"
| "exn_message (RetryError e) = ''RetryError''"
| "exn_message (HTTPException code m) = m"
| "exn_message (OtherException m) = m"

text \<open>
  The first handler of \<open>_send_apns\<close> names the class \<open>aioapns.exceptions.BadDeviceToken\<close>,
  which is the library's to define. Whether the installed library defines it is a parameter,
  \<open>cls\<close>. When it does not, matching an exception of the APNS call against that handler
  raises \<open>AttributeError\<close>, whatever the exception was; this ends both loops and reaches the
  outer handler of \<open>_send_apns\<close>.

  The retry loop for one token, \<open>for attempt in range(self._max_retries)\<close>, from
  \<open>attempt\<close> with \<open>left\<close> iterations to go. It returns the exception that ends the loops,
  if any, the entries appended to \<open>results\<close>, whether the token was added to the iOS
  blacklist, and how many times the token was handed to the provider.
\<close>

definition no_handler_class :: exn where
  "no_handler_class =
     AttributeError ''module aioapns.exceptions has no attribute BadDeviceToken''"

fun send_apns_token ::
  "bool \<Rightarrow> apns_provider \<Rightarrow> string \<Rightarrow> nat \<Rightarrow> nat
     \<Rightarrow> exn option \<times> apns_result list \<times> bool \<times> nat"
where
  "send_apns_token cls apns tok attempt 0 = (None, [], False, 0)"
| "send_apns_token cls apns tok attempt (Suc left) =
     (case apns tok attempt of
        ApnsAccepted \<Rightarrow>
          (None, [\<lparr>result_token = tok, result_success = True, result_error = None\<rparr>],
           False, 1)
      | ApnsBadDeviceToken \<Rightarrow>
          if \<not> cls then (Some no_handler_class, [], False, 1)
          else
            (None, [\<lparr>result_token = tok, result_success = False,
                     result_error = Some ''BadDeviceToken''\<rparr>], True, 1)
      | ApnsFailure e \<Rightarrow>
          if \<not> cls then (Some no_handler_class, [], False, 1)
          else if attempt = max_retries - 1 then
            (None, [\<lparr>result_token = tok, result_success = False, result_error = Some e\<rparr>],
             False, 1)
          else
            (case send_apns_token cls apns tok (Suc attempt) left of
               (raised, rs, bad, calls) \<Rightarrow> (raised, rs, bad, Suc calls)))"

text \<open>
  The loop over the tokens: the results so far, the iOS blacklist, and the tokens handed to
  the provider so far (one entry per call). An exception ends it.
\<close>

fun send_apns_tokens ::
  "bool \<Rightarrow> apns_provider \<Rightarrow> string list \<Rightarrow> apns_result list \<Rightarrow> string set \<Rightarrow> string list
     \<Rightarrow> exn option \<times> apns_result list \<times> string set \<times> string list"
where
  "send_apns_tokens cls apns [] results bl sent = (None, results, bl, sent)"
| "send_apns_tokens cls apns (tok # toks) results bl sent =
     (case send_apns_token cls apns tok 0 max_retries of
        (Some e, rs, bad, calls) \<Rightarrow>
          (Some e, results @ rs, bl, sent @ replicate calls tok)
      | (None, rs, bad, calls) \<Rightarrow>
          send_apns_tokens cls apns toks (results @ rs)
            (if bad then insert tok bl else bl) (sent @ replicate calls tok))"

text \<open>
  \<open>_send_apns\<close>: the response holds the results when the loops ran to their end; after an
  exception it is the initial one, \<open>success\<close> false and no results, with the error.
\<close>

definition send_apns ::
  "bool \<Rightarrow> apns_provider \<Rightarrow> string list \<Rightarrow> string set
     \<Rightarrow> push_response \<times> string set \<times> string list"
where
  "send_apns cls apns tokens bl =
     (case send_apns_tokens cls apns tokens [] bl [] of
        (None, results, bl1, sent) \<Rightarrow>
          (\<lparr>response_success = list_ex result_success results,
            response_results = map apns_result_value results,
            response_error = None\<rparr>, bl1, sent)
      | (Some e, results, bl1, sent) \<Rightarrow>
          (\<lparr>response_success = False, response_results = [],
            response_error = Some (exn_message e)\<rparr>, bl1, sent))"

text \<open>
  \<open>_send_fcm\<close>. After a batch reply the failed tokens are blacklisted, \<open>tokens[idx]\<close> for
  every failed response; an index past the token list raises \<open>IndexError\<close> inside the
  retry loop, like a failure of the call itself.
\<close>

fun fcm_blacklist_failed ::
  "string list \<Rightarrow> bool list \<Rightarrow> nat \<Rightarrow> string set \<Rightarrow> exn option \<times> string set"
where
  "fcm_blacklist_failed tokens [] idx bl = (None, bl)"
| "fcm_blacklist_failed tokens (ok # rest) idx bl =
     (if ok then fcm_blacklist_failed tokens rest (Suc idx) bl
      else if idx < length tokens then
        fcm_blacklist_failed tokens rest (Suc idx) (insert (tokens ! idx) bl)
      else (Some (OtherException ''list index out of range''), bl))"

fun send_fcm_attempts ::
  "fcm_provider \<Rightarrow> string list \<Rightarrow> nat \<Rightarrow> nat \<Rightarrow> push_response \<Rightarrow> string set \<Rightarrow> string list
     \<Rightarrow> exn option \<times> push_response \<times> string set \<times> string list"
where
  "send_fcm_attempts fcm tokens attempt 0 resp bl sent = (None, resp, bl, sent)"
| "send_fcm_attempts fcm tokens attempt (Suc left) resp bl sent =
     (let batch = take batch_size tokens; sent1 = sent @ batch in
      case fcm batch attempt of
        FcmFailure e \<Rightarrow>
          if attempt = max_retries - 1 then (Some (OtherException e), resp, bl, sent1)
          else send_fcm_attempts fcm tokens (Suc attempt) left resp bl sent1
      | FcmBatch responses \<Rightarrow>
          let resp1 = resp\<lparr>response_success := (0 < length (filter (\<lambda>ok. ok) responses)),
                            response_results := map PyBool responses\<rparr>
          in case fcm_blacklist_failed tokens responses 0 bl of
               (None, bl1) \<Rightarrow> (None, resp1, bl1, sent1)
             | (Some e, bl1) \<Rightarrow>
                 if attempt = max_retries - 1 then (Some e, resp1, bl1, sent1)
                 else send_fcm_attempts fcm tokens (Suc attempt) left resp1 bl1 sent1)"

definition send_fcm ::
  "fcm_provider \<Rightarrow> string list \<Rightarrow> string set \<Rightarrow> push_response \<times> string set \<times> string list"
where
  "send_fcm fcm tokens bl =
     (case send_fcm_attempts fcm tokens 0 max_retries
             \<lparr>response_success = False, response_results = [], response_error = None\<rparr> bl []
      of (raised, resp, bl1, sent) \<Rightarrow>
           ((case raised of
               None \<Rightarrow> resp
             | Some e \<Rightarrow> resp\<lparr>response_error := Some (exn_message e)\<rparr>), bl1, sent))"

text \<open>
  \<open>PushNotificationService.send_notification\<close>. The tokens of the user are grouped by
  platform (active entries only), each group is sent, and the notification is updated. An
  exception in the body (here, the \<open>ValueError\<close> of \<open>update_status\<close>) reaches the handler,
  which calls \<open>update_status(FAILED, str(e))\<close> itself and returns \<open>False\<close>; an exception of
  that call leaves the method. The result is what the method returns or raises, the store,
  the notification, and the tokens handed to a provider, in order.
\<close>

definition active_tokens :: "push_store \<Rightarrow> string \<Rightarrow> token_data list" where
  "active_tokens st user = filter (\<lambda>d. token_status d = ''active'') (device_tokens st user)"

definition android_tokens :: "push_store \<Rightarrow> string \<Rightarrow> string list" where
  "android_tokens st user =
     map token (filter (\<lambda>d. platform d = ''android'') (active_tokens st user))"

definition ios_tokens :: "push_store \<Rightarrow> string \<Rightarrow> string list" where
  "ios_tokens st user =
     map token (filter (\<lambda>d. platform d \<noteq> ''android'') (active_tokens st user))"

definition push_handler ::
  "exn option \<times> Notification \<Rightarrow> bool \<Rightarrow> real \<Rightarrow> (exn + bool) \<times> Notification"
where
  "push_handler updated ret now =
     (case updated of
        (None, n1) \<Rightarrow> (Inr ret, n1)
      | (Some e, n1) \<Rightarrow>
          (case update_status n1 FAILED (Some (exn_message e)) None now of
             (None, n2) \<Rightarrow> (Inr False, n2)
           | (Some e2, n2) \<Rightarrow> (Inl e2, n2)))"

definition push_send_notification ::
  "bool \<Rightarrow> push_store \<Rightarrow> fcm_provider \<Rightarrow> apns_provider \<Rightarrow> Notification \<Rightarrow> real
     \<Rightarrow> (exn + bool) \<times> push_store \<times> Notification \<times> string list"
where
  "push_send_notification cls st fcm apns n now =
     (if device_tokens st (user_id n) = [] then
        (case push_handler (update_status n FAILED (Some ''No registered devices'') None now)
                False now
         of (res, n1) \<Rightarrow> (res, st, n1, []))
      else
        let android = android_tokens st (user_id n);
            ios = ios_tokens st (user_id n);
            fcm_part = (if android \<noteq> [] then
                          Some (send_fcm fcm android (blacklisted_tokens st ''android''))
                        else None);
            apns_part = (if ios \<noteq> [] then
                           Some (send_apns cls apns ios (blacklisted_tokens st ''ios''))
                         else None);
            success = ((case fcm_part of None \<Rightarrow> True | Some (r, _, _) \<Rightarrow> response_success r)
                       \<and> (case apns_part of None \<Rightarrow> True | Some (r, _, _) \<Rightarrow> response_success r));
            info = (case fcm_part of None \<Rightarrow> [] | Some (r, _, _) \<Rightarrow> [(''fcm'', response_value r)])
                   @ (case apns_part of None \<Rightarrow> []
                      | Some (r, _, _) \<Rightarrow> [(''apns'', response_value r)]);
            bl_android = (case fcm_part of None \<Rightarrow> blacklisted_tokens st ''android''
                          | Some (_, bl, _) \<Rightarrow> bl);
            bl_ios = (case apns_part of None \<Rightarrow> blacklisted_tokens st ''ios''
                      | Some (_, bl, _) \<Rightarrow> bl);
            sent = (case fcm_part of None \<Rightarrow> [] | Some (_, _, s) \<Rightarrow> s)
                   @ (case apns_part of None \<Rightarrow> [] | Some (_, _, s) \<Rightarrow> s);
            st1 = st\<lparr>blacklisted_tokens :=
                       (blacklisted_tokens st)(''android'' := bl_android, ''ios'' := bl_ios)\<rparr>;
            updated = (if success then update_status n SENT None (Some info) now
                       else update_status n FAILED (Some ''Partial or complete delivery failure'')
                              (Some info) now)
        in (case push_handler updated success now of (res, n1) \<Rightarrow> (res, st1, n1, sent)))"





section \<open>app.py\<close>

text \<open>
  The three helpers of the orchestrator have the body \<open>pass\<close>: each returns \<open>None\<close>,
  whatever it is given.
\<close>

definition determine_delivery_channels :: "Notification \<Rightarrow> string list option" where
  "determine_delivery_channels notification = None"

definition send_through_channel :: "Notification \<Rightarrow> string \<Rightarrow> string option" where
  "send_through_channel notification channel = None"

definition determine_final_status :: "py_dict \<Rightarrow> NotificationStatus option" where
  "determine_final_status delivery_statuses = None"

text \<open>
  \<open>update_status\<close> called with a value that may be \<open>None\<close>: \<open>None\<close> is in no list of the
  transition table, so \<open>validate_transition\<close> is false and the \<open>ValueError\<close> is raised.
\<close>

definition update_status_dyn ::
  "Notification \<Rightarrow> NotificationStatus option \<Rightarrow> string option \<Rightarrow> py_dict option \<Rightarrow> real
     \<Rightarrow> exn option \<times> Notification"
where
  "update_status_dyn self new_status error_msg info now =
     (case new_status of
        None \<Rightarrow>
          (Some (ValueError (''Invalid status transition from '' @ status_value (status self)
                             @ '' to None'')), self)
      | Some s \<Rightarrow> update_status self s error_msg info now)"

text \<open>
  The body of the endpoint \<open>send_notification\<close>, from the tracking entries on. Iterating
  over the \<open>None\<close> that \<open>determine_delivery_channels\<close> returns raises \<open>TypeError\<close>; this and
  every other exception of the body is answered with \<open>HTTPException(500)\<close>. The metrics
  are not modelled. \<open>started\<close> is the reading of \<open>time.time()\<close>, \<open>now\<close> that of
  \<open>datetime.utcnow()\<close>.
\<close>

definition channel_value :: "string option \<Rightarrow> py_value" where
  "channel_value s = (case s of None \<Rightarrow> PyNone | Some v \<Rightarrow> PyStr v)"

definition status_option_value :: "NotificationStatus option \<Rightarrow> py_value" where
  "status_option_value s = (case s of None \<Rightarrow> PyNone | Some v \<Rightarrow> PyStr (status_value v))"

definition send_notification ::
  "Notification \<Rightarrow> string \<Rightarrow> real \<Rightarrow> real \<Rightarrow> (exn + py_dict) \<times> Notification"
where
  "send_notification notification correlation_id started now =
     (let n1 = notification\<lparr>delivery_info :=
                 AList.update ''initiated_at'' (PyNum started)
                   (AList.update ''correlation_id'' (PyStr correlation_id)
                      (delivery_info notification))\<rparr>
      in case determine_delivery_channels n1 of
           None \<Rightarrow> (Inl (HTTPException 500 ''Notification processing failed''), n1)
         | Some channels \<Rightarrow>
             let delivery_statuses =
                   fold (\<lambda>channel statuses.
                           AList.update channel (channel_value (send_through_channel n1 channel))
                             statuses)
                     channels [];
                 final_status = determine_final_status delivery_statuses
             in case update_status_dyn n1 final_status None
                       (Some [(''channel_statuses'', PyDict delivery_statuses)]) now
                of (Some e, n2) \<Rightarrow> (Inl (HTTPException 500 ''Notification processing failed''), n2)
                 | (None, n2) \<Rightarrow>
                     (Inr [(''notification_id'', PyStr (notification_id n2)),
                           (''status'', status_option_value final_status),
                           (''delivery_info'', PyDict (delivery_info n2))], n2))"

section \<open>services/email\_service.py: the sender\<close>

text \<open>
  \<open>RateLimiter(**RATE_LIMIT_CONFIG)\<close>: the keyword arguments are bound to the parameters
  \<open>max_per_hour\<close> and \<open>max_burst\<close> of the constructor; a keyword that is not a parameter,
  or a parameter left without a value, raises \<open>TypeError\<close>.
\<close>

definition RATE_LIMIT_CONFIG :: "(string \<times> int) list" where
  "RATE_LIMIT_CONFIG = [(''max_emails_per_hour'', 20), (''max_burst'', 5)]"

definition RateLimiter_kwargs :: "(string \<times> int) list \<Rightarrow> exn + RateLimiter" where
  "RateLimiter_kwargs kwargs =
     (case filter (\<lambda>(k, v). k \<notin> set [''max_per_hour'', ''max_burst'']) kwargs of
        (k, v) # rest \<Rightarrow>
          Inl (TypeError (''__init__() got an unexpected keyword argument '' @ k))
      | [] \<Rightarrow>
          (case (map_of kwargs ''max_per_hour'', map_of kwargs ''max_burst'') of
             (Some mph, Some mb) \<Rightarrow> Inr (RateLimiter_init mph mb)
           | _ \<Rightarrow> Inl (TypeError ''__init__() missing a required positional argument'')))"

record DeliveryStats =
  stats_sent :: nat
  stats_failed :: nat
  last_success :: "real option"
  last_failure :: "real option"
  errors :: "(string \<times> nat) list"

definition DeliveryStats_init :: DeliveryStats where
  "DeliveryStats_init =
     \<lparr>stats_sent = 0, stats_failed = 0, last_success = None, last_failure = None, errors = []\<rparr>"

definition record_success :: "DeliveryStats \<Rightarrow> real \<Rightarrow> DeliveryStats" where
  "record_success self now = self\<lparr>stats_sent := stats_sent self + 1, last_success := Some now\<rparr>"

definition record_failure :: "DeliveryStats \<Rightarrow> string \<Rightarrow> real \<Rightarrow> DeliveryStats" where
  "record_failure self err now =
     self\<lparr>stats_failed := stats_failed self + 1, last_failure := Some now,
          errors := AList.update err
                      ((case map_of (errors self) err of None \<Rightarrow> 0 | Some c \<Rightarrow> c) + 1)
                      (errors self)\<rparr>"

text \<open>
  The state of an \<open>EmailService\<close>: its limiters and statistics, per address. What the
  collaborators do during one call of the body is a parameter: the clock, the result of
  \<open>validate_email\<close> (the normalised address, or the exception), the result of
  \<open>render_template\<close>, and for each provider whether a client is configured and, if so, what
  \<open>_send_via_sendgrid\<close> and \<open>_send_via_smtp\<close> return (both catch every exception
  themselves).
\<close>

record EmailService =
  rate_limiters :: "(string \<times> RateLimiter) list"
  delivery_stats :: "(string \<times> DeliveryStats) list"

record email_env =
  env_now :: real
  env_validate_email :: "exn + string"
  env_render_template :: "exn + string"
  env_sendgrid :: "bool option"
  env_smtp :: "bool option"

text \<open>
  The handler \<open>except Exception\<close> of \<open>send_email\<close>: the failure is counted when the
  address has statistics, and the exception is raised again.
\<close>

definition email_reraise ::
  "EmailService \<Rightarrow> string \<Rightarrow> exn \<Rightarrow> real \<Rightarrow> (exn + bool) \<times> EmailService"
where
  "email_reraise self to_email e now =
     (case map_of (delivery_stats self) to_email of
        None \<Rightarrow> (Inl e, self)
      | Some stats \<Rightarrow>
          (Inl e, self\<lparr>delivery_stats :=
                         AList.update to_email (record_failure stats (exn_message e) now)
                           (delivery_stats self)\<rparr>))"

definition email_count ::
  "EmailService \<Rightarrow> string \<Rightarrow> (DeliveryStats \<Rightarrow> DeliveryStats) \<Rightarrow> EmailService"
where
  "email_count self to_email f =
     (case map_of (delivery_stats self) to_email of
        None \<Rightarrow> self
      | Some stats \<Rightarrow>
          self\<lparr>delivery_stats := AList.update to_email (f stats) (delivery_stats self)\<rparr>)"

text \<open>The providers, after rendering: SendGrid first, SMTP when SendGrid did not succeed.\<close>

definition email_deliver :: "EmailService \<Rightarrow> email_env \<Rightarrow> string \<Rightarrow> (exn + bool) \<times> EmailService" where
  "email_deliver self env to_email =
     (if env_sendgrid env = Some True then
        (Inr True, email_count self to_email (\<lambda>s. record_success s (env_now env)))
      else if env_smtp env = Some True then
        (Inr True, email_count self to_email (\<lambda>s. record_success s (env_now env)))
      else
        (Inr False,
         email_count self to_email
           (\<lambda>s. record_failure s ''Both SendGrid and SMTP delivery failed'' (env_now env))))"

text \<open>One run of the body of \<open>send_email\<close>, with its two handlers.\<close>

definition send_email_attempt ::
  "EmailService \<Rightarrow> email_env \<Rightarrow> string \<Rightarrow> (exn + bool) \<times> EmailService"
where
  "send_email_attempt self env to_email0 =
     (case env_validate_email env of
        Inl (EmailNotValidError m) \<Rightarrow> (Inr False, self)
      | Inl e \<Rightarrow> email_reraise self to_email0 e (env_now env)
      | Inr to_email \<Rightarrow>
          (case (case map_of (rate_limiters self) to_email of
                   Some limiter \<Rightarrow> Inr (self, limiter)
                 | None \<Rightarrow>
                     (case RateLimiter_kwargs RATE_LIMIT_CONFIG of
                        Inl e \<Rightarrow> Inl e
                      | Inr limiter \<Rightarrow>
                          Inr (self\<lparr>rate_limiters :=
                                       AList.update to_email limiter (rate_limiters self)\<rparr>,
                               limiter)))
           of Inl e \<Rightarrow> email_reraise self to_email e (env_now env)
            | Inr (self1, limiter) \<Rightarrow>
                (case acquire limiter (env_now env) of
                   (allowed, limiter1) \<Rightarrow>
                     let self2 = self1\<lparr>rate_limiters :=
                                   AList.update to_email limiter1 (rate_limiters self1)\<rparr>
                     in if \<not> allowed then (Inr False, self2)
                        else
                          let self3 =
                                (case map_of (delivery_stats self2) to_email of
                                   Some stats \<Rightarrow> self2
                                 | None \<Rightarrow>
                                     self2\<lparr>delivery_stats :=
                                       AList.update to_email DeliveryStats_init
                                         (delivery_stats self2)\<rparr>)
                          in (case env_render_template env of
                                Inl e \<Rightarrow> email_reraise self3 to_email e (env_now env)
                              | Inr content \<Rightarrow> email_deliver self3 env to_email))))"

text \<open>
  \<open>send_email\<close> under its decorator \<open>@retry(stop=stop_after_attempt(3), ...)\<close>: a run that
  raises is repeated, and when the last attempt raises too, the decorator raises
  \<open>RetryError\<close>; a run that returns, also \<open>False\<close>, ends the call. The collaborators may
  answer differently at each attempt (\<open>envs\<close>, by attempt number from 1).
\<close>

definition RETRY_max_attempts :: nat where
  "RETRY_max_attempts = 3"

fun send_email_retry ::
  "EmailService \<Rightarrow> (nat \<Rightarrow> email_env) \<Rightarrow> string \<Rightarrow> nat \<Rightarrow> nat \<Rightarrow> (exn + bool) \<times> EmailService"
where
  "send_email_retry self envs to_email attempt 0 = (Inl (RetryError (OtherException [])), self)"
| "send_email_retry self envs to_email attempt (Suc left) =
     (case send_email_attempt self (envs attempt) to_email of
        (Inr ok, self1) \<Rightarrow> (Inr ok, self1)
      | (Inl e, self1) \<Rightarrow>
          if attempt \<ge> RETRY_max_attempts then (Inl (RetryError e), self1)
          else send_email_retry self1 envs to_email (Suc attempt) left)"

definition send_email ::
  "EmailService \<Rightarrow> (nat \<Rightarrow> email_env) \<Rightarrow> string \<Rightarrow> (exn + bool) \<times> EmailService"
where
  "send_email self envs to_email = send_email_retry self envs to_email 1 RETRY_max_attempts"

section \<open>services/sms\_service.py\<close>

text \<open>
  Attribute access on the two enum classes, by the name of the member: a name that is not a
  member raises \<open>AttributeError\<close>.
\<close>

definition NotificationType_member :: "string \<Rightarrow> exn + NotificationType" where
  "NotificationType_member name =
     (case map_of [(''TRANSACTION_ALERT'', TRANSACTION_ALERT),
                   (''SECURITY_ALERT'', SECURITY_ALERT),
                   (''MINING_UPDATE'', MINING_UPDATE),
                   (''MARKETING'', MARKETING),
                   (''SYSTEM_UPDATE'', SYSTEM_UPDATE)] name of
        Some m \<Rightarrow> Inr m
      | None \<Rightarrow> Inl (AttributeError name))"

definition NotificationStatus_member :: "string \<Rightarrow> exn + NotificationStatus" where
  "NotificationStatus_member name =
     (case map_of [(''PENDING'', PENDING), (''SENT'', SENT), (''DELIVERED'', DELIVERED),
                   (''READ'', READ), (''FAILED'', FAILED)] name of
        Some m \<Rightarrow> Inr m
      | None \<Rightarrow> Inl (AttributeError name))"

text \<open>
  The rate tracking of \<open>SMSService\<close>: per phone number and notification type a counter and
  the start of its window, and the table of limits by notification type.
\<close>

record sms_tracking =
  tracking_count :: int
  window_start :: real

record SMSService =
  rate_limits :: "(NotificationType \<times> int \<times> real) list"
  rate_tracking :: "(string \<times> (NotificationType \<times> sms_tracking) list) list"

text \<open>
  The constructor, as far as the state goes: it builds the table of limits under the members
  \<open>TRANSACTION_ALERT\<close>, \<open>SECURITY_ALERT\<close> and \<open>VERIFICATION_CODE\<close> of
  \<open>NotificationType\<close>, and starts with an empty tracking table. The Twilio client, the
  logger and the encryption key are outside the model.
\<close>

definition SMSService_init :: "exn + SMSService" where
  "SMSService_init =
     (case NotificationType_member ''TRANSACTION_ALERT'' of
        Inl e \<Rightarrow> Inl e
      | Inr transaction \<Rightarrow>
          (case NotificationType_member ''SECURITY_ALERT'' of
             Inl e \<Rightarrow> Inl e
           | Inr security \<Rightarrow>
               (case NotificationType_member ''VERIFICATION_CODE'' of
                  Inl e \<Rightarrow> Inl e
                | Inr verification \<Rightarrow>
                    Inr \<lparr>rate_limits = [(transaction, 5, 3600), (security, 10, 3600),
                                        (verification, 3, 300)],
                         rate_tracking = []\<rparr>)))"

text \<open>
  \<open>_check_rate_limit\<close>. An entry read from the table is the stored object itself, so
  resetting its window is seen in the table even when the call then refuses; a fresh
  default entry is stored only when the call admits.
\<close>

definition check_rate_limit ::
  "SMSService \<Rightarrow> string \<Rightarrow> NotificationType \<Rightarrow> real \<Rightarrow> bool \<times> SMSService"
where
  "check_rate_limit self phone_number ntype now =
     (case map_of (rate_limits self) ntype of
        None \<Rightarrow> (True, self)
      | Some (max_count, window_seconds) \<Rightarrow>
          let table1 = (case map_of (rate_tracking self) phone_number of
                          Some per_type \<Rightarrow> rate_tracking self
                        | None \<Rightarrow>
                            AList.update phone_number
                              [(ntype, \<lparr>tracking_count = 0, window_start = now\<rparr>)]
                              (rate_tracking self));
              per_type = (case map_of table1 phone_number of Some p \<Rightarrow> p | None \<Rightarrow> []);
              stored = map_of per_type ntype;
              tracking = (case stored of
                            Some t \<Rightarrow> t
                          | None \<Rightarrow> \<lparr>tracking_count = 0, window_start = now\<rparr>);
              tracking1 = (if now - window_start tracking > window_seconds
                           then \<lparr>tracking_count = 0, window_start = now\<rparr>
                           else tracking)
          in if tracking_count tracking1 \<ge> max_count then
               (False,
                self\<lparr>rate_tracking :=
                       (if stored = None then table1
                        else AList.update phone_number
                               (AList.update ntype tracking1 per_type) table1)\<rparr>)
             else
               (True,
                self\<lparr>rate_tracking :=
                       AList.update phone_number
                         (AList.update ntype
                            (tracking1\<lparr>tracking_count := tracking_count tracking1 + 1\<rparr>)
                            per_type)
                         table1\<rparr>))"

text \<open>
  What the collaborators of \<open>send_sms\<close> do during one call: the clock; \<open>phonenumbers\<close>
  (the parse raises, or the number is valid or not); the encryption of the message; and the
  Twilio call (the message id, or the exception it raises).
\<close>

record sms_env =
  sms_now :: real
  sms_parse :: "exn + bool"
  sms_encrypt :: "string \<Rightarrow> string"
  sms_create :: "exn + string"

text \<open>
  The body of the \<open>try\<close> of \<open>send_sms\<close>. The outcome for a refused number is built from
  \<open>NotificationStatus.RATE_LIMITED\<close>.
\<close>

definition send_sms_body ::
  "SMSService \<Rightarrow> sms_env \<Rightarrow> string \<Rightarrow> string \<Rightarrow> NotificationType \<Rightarrow> py_dict option \<Rightarrow> bool
     \<Rightarrow> (exn + py_dict) \<times> SMSService"
where
  "send_sms_body self env phone_number msg ntype meta encrypt_content =
     (case sms_parse env of
        Inl e \<Rightarrow> (Inl e, self)
      | Inr False \<Rightarrow> (Inl (ValueError ''Invalid phone number''), self)
      | Inr True \<Rightarrow>
          (case check_rate_limit self phone_number ntype (sms_now env) of
             (False, self1) \<Rightarrow>
               (case NotificationStatus_member ''RATE_LIMITED'' of
                  Inl e \<Rightarrow> (Inl e, self1)
                | Inr rate_limited \<Rightarrow>
                    (Inr [(''status'', PyStr (status_value rate_limited)),
                          (''error'', PyStr ''Rate limit exceeded''),
                          (''timestamp'', PyNum (sms_now env))], self1))
           | (True, self1) \<Rightarrow>
               let content = (if encrypt_content then sms_encrypt env msg else msg) in
               (case sms_create env of
                  Inl e \<Rightarrow> (Inl e, self1)
                | Inr sid \<Rightarrow>
                    (Inr [(''status'', PyStr (status_value SENT)),
                          (''message_id'', PyStr sid),
                          (''timestamp'', PyNum (sms_now env)),
                          (''tracking_data'',
                           PyDict [(''notification_type'', PyStr (type_value ntype)),
                                   (''encrypted'', PyBool encrypt_content),
                                   (''metadata'',
                                    (case meta of None \<Rightarrow> PyNone | Some d \<Rightarrow> PyDict d))])],
                     self1))))"

text \<open>
  \<open>send_sms\<close>: the body under its two handlers, \<open>except TwilioRestException\<close> and
  \<open>except Exception\<close>, each of which returns an outcome with the status failed.
\<close>

definition send_sms ::
  "SMSService \<Rightarrow> sms_env \<Rightarrow> string \<Rightarrow> string \<Rightarrow> NotificationType \<Rightarrow> py_dict option \<Rightarrow> bool
     \<Rightarrow> (exn + py_dict) \<times> SMSService"
where
  "send_sms self env phone_number msg ntype meta encrypt_content =
     (case send_sms_body self env phone_number msg ntype meta encrypt_content of
        (Inr outcome, self1) \<Rightarrow> (Inr outcome, self1)
      | (Inl (TwilioRestException code m), self1) \<Rightarrow>
          (Inr [(''status'', PyStr (status_value FAILED)),
                (''error'', PyStr m),
                (''error_code'', PyNum (real_of_int code)),
                (''timestamp'', PyNum (sms_now env))], self1)
      | (Inl e, self1) \<Rightarrow>
          (Inr [(''status'', PyStr (status_value FAILED)),
                (''error'', PyStr (exn_message e)),
                (''timestamp'', PyNum (sms_now env))], self1))"

section \<open>utils/templates.py\<close>

text \<open>
  The template engine (Jinja2) is outside the repository. A parsed template is taken as a
  sequence of literal text, of substitutions \<open>{{ name }}\<close>, and of tests
  \<open>{% if name %} ... {% endif %}\<close> on a variable; loops, filters and attribute access are
  not modelled. A substitution prints the value of the variable with \<open>str\<close>; a test takes
  its truth value. For a variable that the context lacks the engine makes an object of the
  class given as \<open>undefined\<close>, here \<open>StrictUndefined\<close>. The class overrides \<open>__str__\<close>
  and nothing else, so everything but printing is the engine's \<open>Undefined\<close>, whose truth
  value is false. The template directory is a parameter: what lies at a path.
\<close>

datatype segment = Text string | Var string | If string "segment list"

datatype fs_entry = File "segment list" | Directory

datatype context_value = CtxNone | CtxStr string | CtxCallable

type_synonym template_context = "(string \<times> context_value) list"

definition SUPPORTED_LOCALES :: "string list" where
  "SUPPORTED_LOCALES = [''en'', ''ar'', ''fr'']"

text \<open>\<open>StrictUndefined.__str__\<close>: raises, with the name of the variable.\<close>

definition StrictUndefined_str :: "string \<Rightarrow> exn + string" where
  "StrictUndefined_str undefined_name =
     Inl (SecurityError (''Undefined template variable: '' @ undefined_name))"

text \<open>\<open>Undefined.__bool__\<close>, which \<open>StrictUndefined\<close> inherits: false.\<close>

definition StrictUndefined_bool :: "string \<Rightarrow> bool" where
  "StrictUndefined_bool undefined_name = False"

definition context_value_str :: "context_value \<Rightarrow> string" where
  "context_value_str v = (case v of CtxNone \<Rightarrow> ''None'' | CtxStr s \<Rightarrow> s | CtxCallable \<Rightarrow> [])"

definition context_value_bool :: "context_value \<Rightarrow> bool" where
  "context_value_bool v = (case v of CtxNone \<Rightarrow> False | CtxStr s \<Rightarrow> s \<noteq> [] | CtxCallable \<Rightarrow> True)"

text \<open>\<open>template.render(**context)\<close>, left to right; the first exception ends it.\<close>

fun render_segments :: "segment list \<Rightarrow> template_context \<Rightarrow> exn + string"
  and render_segment :: "segment \<Rightarrow> template_context \<Rightarrow> exn + string"
where
  "render_segments [] ctx = Inr []"
| "render_segments (seg # rest) ctx =
     (case render_segment seg ctx of
        Inl e \<Rightarrow> Inl e
      | Inr printed \<Rightarrow>
          (case render_segments rest ctx of Inl e \<Rightarrow> Inl e | Inr out \<Rightarrow> Inr (printed @ out)))"
| "render_segment (Text s) ctx = Inr s"
| "render_segment (Var name) ctx =
     (case map_of ctx name of
        None \<Rightarrow> StrictUndefined_str name
      | Some v \<Rightarrow> Inr (context_value_str v))"
| "render_segment (If name body) ctx =
     (if (case map_of ctx name of
            None \<Rightarrow> StrictUndefined_bool name
          | Some v \<Rightarrow> context_value_bool v)
      then render_segments body ctx
      else Inr [])"

text \<open>
  \<open>_sanitize_context\<close>: entries whose key starts with an underscore or whose value is
  callable are dropped; \<open>user_id\<close> and \<open>timestamp\<close> are added as \<open>None\<close> when absent.
\<close>

definition startswith_underscore :: "string \<Rightarrow> bool" where
  "startswith_underscore k = (case k of [] \<Rightarrow> False | c # cs \<Rightarrow> c = CHR ''_'')"

definition sanitize_context :: "template_context \<Rightarrow> template_context" where
  "sanitize_context context =
     (let sanitized = filter (\<lambda>(k, v). \<not> startswith_underscore k \<and> v \<noteq> CtxCallable) context
      in fold (\<lambda>key s. if map_of s key = None then AList.update key CtxNone s else s)
           [''user_id'', ''timestamp''] sanitized)"

text \<open>\<open>get_template_path\<close>, against the template directory \<open>fs\<close>.\<close>

definition get_template_path ::
  "(string \<Rightarrow> fs_entry option) \<Rightarrow> NotificationType \<Rightarrow> string \<Rightarrow> string option \<Rightarrow> exn + string"
where
  "get_template_path fs ntype channel locale =
     (if channel \<notin> set [''email'', ''sms'', ''push''] then
        Inl (ValueError (''Invalid channel: '' @ channel))
      else
        let requested = (case locale of None \<Rightarrow> ''en'' | Some l \<Rightarrow> if l = [] then ''en'' else l);
            effective_locale = (if requested \<notin> set SUPPORTED_LOCALES then ''en'' else requested);
            template_path = effective_locale @ ''/'' @ type_value ntype @ ''/'' @ channel @ ''.j2''
        in case fs template_path of
             None \<Rightarrow> Inl (ValueError (''Template not found: '' @ template_path))
           | Some Directory \<Rightarrow> Inl (ValueError (''Invalid template path: '' @ template_path))
           | Some (File t) \<Rightarrow> Inr template_path)"

text \<open>
  \<open>render_template\<close>. The manager's state is its cache of parsed templates, by path and
  locale; the handler for \<open>SecurityError\<close> and \<open>ValueError\<close> logs and raises again, so the
  exception of the body is the exception of the call.
\<close>

record NotificationTemplateManager =
  template_cache :: "(string \<times> segment list) list"

definition cache_key :: "string \<Rightarrow> string option \<Rightarrow> string" where
  "cache_key template_path locale =
     template_path @ '':''
       @ (case locale of None \<Rightarrow> ''default'' | Some l \<Rightarrow> if l = [] then ''default'' else l)"

text \<open>
  The template a call renders: the cached one when the key is in the cache, the file's
  otherwise (\<open>self._env.get_template\<close>, which raises when nothing is there to load).
\<close>

definition find_template ::
  "NotificationTemplateManager \<Rightarrow> (string \<Rightarrow> fs_entry option) \<Rightarrow> string \<Rightarrow> string option
     \<Rightarrow> exn + segment list"
where
  "find_template self fs template_path locale =
     (case map_of (template_cache self) (cache_key template_path locale) of
        Some t \<Rightarrow> Inr t
      | None \<Rightarrow>
          (case fs template_path of
             Some (File t) \<Rightarrow> Inr t
           | _ \<Rightarrow> Inl (OtherException (''TemplateNotFound: '' @ template_path))))"

definition render_template ::
  "NotificationTemplateManager \<Rightarrow> (string \<Rightarrow> fs_entry option) \<Rightarrow> NotificationType \<Rightarrow> string
     \<Rightarrow> template_context \<Rightarrow> string option \<Rightarrow> (exn + string) \<times> NotificationTemplateManager"
where
  "render_template self fs ntype channel context locale =
     (case get_template_path fs ntype channel locale of
        Inl e \<Rightarrow> (Inl e, self)
      | Inr template_path \<Rightarrow>
          (case find_template self fs template_path locale of
             Inl e \<Rightarrow> (Inl e, self)
           | Inr t \<Rightarrow>
               let key = cache_key template_path locale;
                   self1 = (case map_of (template_cache self) key of
                              Some cached \<Rightarrow> self
                            | None \<Rightarrow>
                                self\<lparr>template_cache := AList.update key t (template_cache self)\<rparr>)
               in (render_segments t (sanitize_context context), self1)))"

section \<open>Concrete inputs\<close>

definition example_notification :: Notification where
  "example_notification =
     \<lparr>notification_id = ''n-1'', user_id = ''u-1'', notification_type = TRANSACTION_ALERT,
      title = ''Payment'', message = ''You paid 5 Pi'', status = PENDING, metadata = [],
      created_at = 0, sent_at = None, delivered_at = None, read_at = None,
      error_message = None, delivery_info = []\<rparr>"

definition empty_store :: push_store where
  "empty_store = \<lparr>device_tokens = (\<lambda>user. []), blacklisted_tokens = (\<lambda>plat. {})\<rparr>"

text \<open>One user with an Android token and an iOS token, and one with an iOS token only.\<close>

definition two_platform_store :: push_store where
  "two_platform_store =
     snd (register_device (snd (register_device empty_store ''u-1'' ''a1'' ''android'' 1))
            ''u-1'' ''i1'' ''ios'' 2)"

definition ios_store :: push_store where
  "ios_store = snd (register_device empty_store ''u-1'' ''i1'' ''ios'' 1)"

definition fcm_rejects :: fcm_provider where
  "fcm_rejects batch attempt = FcmBatch (map (\<lambda>tok. False) batch)"

definition apns_accepts :: apns_provider where
  "apns_accepts tok attempt = ApnsAccepted"

definition apns_bad_token :: apns_provider where
  "apns_bad_token tok attempt = ApnsBadDeviceToken"

definition fcm_accepts :: fcm_provider where
  "fcm_accepts batch attempt = FcmBatch (map (\<lambda>tok. True) batch)"

definition env_delivers :: email_env where
  "env_delivers =
     \<lparr>env_now = 10, env_validate_email = Inr ''a@fpbe.com'',
      env_render_template = Inr ''<p>Payment received</p>'',
      env_sendgrid = Some True, env_smtp = None\<rparr>"

definition env_invalid_address :: email_env where
  "env_invalid_address =
     env_delivers\<lparr>env_validate_email := Inl (EmailNotValidError ''no @-sign'')\<rparr>"

text \<open>An \<open>EmailService\<close> as its constructor leaves it: no limiter, no statistics.\<close>

definition fresh_email_service :: EmailService where
  "fresh_email_service = \<lparr>rate_limiters = [], delivery_stats = []\<rparr>"


definition android_store :: push_store where
  "android_store = snd (register_device empty_store ''u-1'' ''a1'' ''android'' 1)"



text \<open>
  A template directory with one SMS template, which tests \<open>promo\<close> and prints
  \<open>amount\<close>.
\<close>

definition sms_template_dir :: "string \<Rightarrow> fs_entry option" where
  "sms_template_dir path =
     (if path = ''en/transaction_alert/sms.j2''
      then Some (File [If ''promo'' [Text ''Promo: '', Var ''promo'', Text ''. ''],
                       Text ''You paid '', Var ''amount''])
      else None)"

section \<open>The status state machine\<close>

text \<open>
  Claim C1. For every pair of statuses, \<open>validate_transition current new\<close> holds exactly
  when the pair is one of pending to sent or failed, sent to delivered or failed, delivered
  to read or failed, read to failed; failed has no outgoing transition.
\<close>

theorem validate_transition_table:
  "(validate_transition current new \<longleftrightarrow>
      (current, new) \<in> {(PENDING, SENT), (PENDING, FAILED), (SENT, DELIVERED), (SENT, FAILED),
                         (DELIVERED, READ), (DELIVERED, FAILED), (READ, FAILED)})
   \<and> \<not> validate_transition FAILED new"
  by (cases current; cases new; simp add: validate_transition_def valid_transitions_def)

theorem validate_transition_table_witness:
  "validate_transition PENDING SENT \<and> \<not> validate_transition PENDING DELIVERED
   \<and> \<not> validate_transition FAILED SENT"
  using validate_transition_table [of PENDING SENT] validate_transition_table [of PENDING DELIVERED]
    validate_transition_table [of FAILED SENT]
  by simp

text \<open>
  Claim C2. \<open>update_status\<close> applies the new status only when the transition from the
  current status is valid. Otherwise it raises the \<open>ValueError\<close> for an invalid status
  transition and the notification is left as it was, in every field.
\<close>

theorem update_status_guarded:
  "(validate_transition (status n) s \<longrightarrow>
      fst (update_status n s em di now) = None
      \<and> status (snd (update_status n s em di now)) = s)
   \<and> (\<not> validate_transition (status n) s \<longrightarrow>
      (\<exists>msg. fst (update_status n s em di now) = Some (ValueError msg))
      \<and> snd (update_status n s em di now) = n)"
  by (simp add: update_status_def Let_def split: option.splits)

theorem update_status_guarded_witness:
  "fst (update_status example_notification SENT None None 7) = None
   \<and> status (snd (update_status example_notification SENT None None 7)) = SENT
   \<and> (\<exists>msg. fst (update_status example_notification DELIVERED None (Some [(''k'', PyNone)]) 7)
              = Some (ValueError msg))
   \<and> snd (update_status example_notification DELIVERED None (Some [(''k'', PyNone)]) 7)
       = example_notification"
  using update_status_guarded [of example_notification SENT None None 7]
    update_status_guarded [of example_notification DELIVERED None "Some [(''k'', PyNone)]" 7]
  by (simp add: example_notification_def validate_transition_def valid_transitions_def)

section \<open>The rate limiter\<close>

lemma acquire_requests:
  "acquire L now = (r, L') \<Longrightarrow> requests L' = in_window L now @ (if r then [now] else [])"
  by (auto simp: acquire_def in_window_def Let_def split: if_splits)

lemma acquire_params:
  "acquire L now = (r, L') \<Longrightarrow>
     max_per_hour L' = max_per_hour L \<and> max_burst L' = max_burst L
     \<and> window_size L' = window_size L"
  by (auto simp: acquire_def Let_def split: if_splits)

text \<open>A limiter that has ever admitted a call has a positive burst limit.\<close>

lemma acquire_allowed_burst_pos:
  assumes "acquire L now = (True, L')"
  shows "0 < max_burst L"
proof -
  let ?xs = "filter (\<lambda>ts. now - ts \<le> window_size L) (requests L)"
  have "length (filter (\<lambda>ts. now - ts \<le> 60) ?xs) \<le> length ?xs"
    by (rule length_filter_le)
  with assms show ?thesis
    by (auto simp: acquire_def Let_def split: if_splits)
qed

text \<open>
  A call at \<open>s\<close>, no later than \<open>t\<close> and within the window of \<open>t\<close>, prunes nothing that
  the window of \<open>t\<close> still holds, and its own timestamp counts there when it is admitted.
\<close>

lemma in_window_acquire:
  assumes "acquire L s = (r, L')" and "s \<le> t" and "t - s \<le> window_size L"
  shows "length (in_window L' t) = length (in_window L t) + (if r then 1 else 0)"
proof -
  have w: "window_size L' = window_size L"
    using acquire_params [OF assms(1)] by simp
  have "filter (\<lambda>ts. t - ts \<le> window_size L) (in_window L s) = in_window L t"
    using assms(2) by (auto simp: in_window_def intro: filter_cong)
  then show ?thesis
    using acquire_requests [OF assms(1)] assms(3) w by (simp add: in_window_def)
qed

lemma acquire_calls_count:
  "acquire_calls L ts = (rs, L1) \<Longrightarrow> \<forall>s\<in>set ts. s \<le> t \<and> t - s \<le> window_size L \<Longrightarrow>
     length (in_window L1 t) = length (in_window L t) + length (filter (\<lambda>r. r) rs)
     \<and> max_per_hour L1 = max_per_hour L \<and> max_burst L1 = max_burst L
     \<and> window_size L1 = window_size L
     \<and> (True \<in> set rs \<longrightarrow> 0 < max_burst L)"
proof (induction ts arbitrary: L rs L1)
  case Nil
  then show ?case by simp
next
  case (Cons s ts)
  obtain r La where a: "acquire L s = (r, La)"
    by (cases "acquire L s")
  obtain rs' Lb where b: "acquire_calls La ts = (rs', Lb)"
    by (cases "acquire_calls La ts")
  from Cons.prems(1) a b have eq: "rs = r # rs'" "L1 = Lb"
    by simp_all
  have p: "max_per_hour La = max_per_hour L" "max_burst La = max_burst L"
    "window_size La = window_size L"
    using acquire_params [OF a] by simp_all
  have ih: "length (in_window Lb t) = length (in_window La t) + length (filter (\<lambda>r. r) rs')
     \<and> max_per_hour Lb = max_per_hour La \<and> max_burst Lb = max_burst La
     \<and> window_size Lb = window_size La
     \<and> (True \<in> set rs' \<longrightarrow> 0 < max_burst La)"
    using Cons.IH [OF b] Cons.prems(2) p by simp
  have st: "s \<le> t" "t - s \<le> window_size L"
    using Cons.prems(2) by simp_all
  have c: "length (in_window La t) = length (in_window L t) + (if r then 1 else 0)"
    by (rule in_window_acquire [OF a st])
  have d: "r \<Longrightarrow> 0 < max_burst L"
    using a acquire_allowed_burst_pos [of L s La] by simp
  show ?case
    using ih c d p eq by auto
qed

lemma acquire_calls_example:
  "acquire_calls (RateLimiter_init 5 5) [0, 1, 2, 3, 4]
     = ([True, True, True, True, True],
        \<lparr>max_per_hour = 5, max_burst = 5, window_size = 3600, requests = [0, 1, 2, 3, 4]\<rparr>)"
  by (simp add: acquire_def RateLimiter_init_def Let_def)

text \<open>
  Claim C5. A limiter with \<open>max_per_hour = 5\<close> and the window of 3600 seconds: after calls
  of which five were admitted, a further call at \<open>t\<close>, no earlier than those calls and with
  all of them inside its trailing window, is refused; and a call at a time \<open>t'\<close> at which
  every recorded timestamp is older than the window is admitted again.
\<close>

theorem acquire_sixth_refused_then_admitted:
  assumes "max_per_hour L = 5" and "window_size L = 3600"
    and "acquire_calls L ts = (rs, L1)"
    and "length (filter (\<lambda>r. r) rs) = 5"
    and "\<forall>s\<in>set ts. s \<le> t \<and> t - s \<le> 3600"
    and "acquire L1 t = (r6, L2)"
    and "\<forall>x\<in>set (requests L2). t' - x > 3600"
  shows "r6 = False \<and> fst (acquire L2 t') = True"
proof -
  have cnt: "length (in_window L1 t) = length (in_window L t) + length (filter (\<lambda>r. r) rs)
     \<and> max_per_hour L1 = max_per_hour L \<and> max_burst L1 = max_burst L
     \<and> window_size L1 = window_size L
     \<and> (True \<in> set rs \<longrightarrow> 0 < max_burst L)"
    using acquire_calls_count [OF assms(3)] assms(5) assms(2) by simp
  have "filter (\<lambda>r. r) rs \<noteq> []"
    using assms(4) by auto
  then have "True \<in> set rs"
    by (auto simp: filter_empty_conv)
  with cnt have bp: "0 < max_burst L"
    by simp
  have five: "5 \<le> length (in_window L1 t)"
    using cnt assms(4) by simp
  have r6: "r6 = False"
    using assms(6) five cnt assms(1)
    by (auto simp: acquire_def in_window_def Let_def split: if_splits)
  have p2: "max_per_hour L2 = 5" "max_burst L2 = max_burst L" "window_size L2 = 3600"
    using acquire_params [OF assms(6)] cnt assms(1,2) by simp_all
  have "filter (\<lambda>ts. t' - ts \<le> 3600) (requests L2) = []"
    using assms(7) by (auto simp: filter_empty_conv)
  then have "fst (acquire L2 t') = True"
    using p2 bp by (simp add: acquire_def Let_def)
  with r6 show ?thesis
    by simp
qed


theorem acquire_sixth_refused_then_admitted_witness:
  "fst (acquire (snd (acquire_calls (RateLimiter_init 5 5) [0, 1, 2, 3, 4])) 5) = False
   \<and> fst (acquire (snd (acquire (snd (acquire_calls (RateLimiter_init 5 5) [0, 1, 2, 3, 4])) 5))
            4000) = True"
proof -
  let ?L1 = "\<lparr>max_per_hour = 5, max_burst = 5, window_size = 3600,
               requests = [0, 1, 2, 3, 4 :: real]\<rparr>"
  have a: "acquire_calls (RateLimiter_init 5 5) [0, 1, 2, 3, 4]
             = ([True, True, True, True, True], ?L1)"
    by (rule acquire_calls_example)
  have b: "acquire ?L1 5 = (False, ?L1)"
    by (simp add: acquire_def Let_def)
  have "False = False \<and> fst (acquire ?L1 4000) = True"
    by (rule acquire_sixth_refused_then_admitted [OF _ _ a _ _ b])
       (simp_all add: RateLimiter_init_def)
  then show ?thesis
    using a b by simp
qed

text \<open>
  Claim C10. A call of \<open>acquire\<close> that returns false appends nothing: the recorded
  timestamps are the pruned ones, all of them recorded before. The call appends its clock
  reading exactly when it returns true.
\<close>

theorem acquire_appends_only_when_admitted:
  assumes "acquire L now = (r, L')"
  shows "(\<not> r \<longrightarrow> requests L' = in_window L now \<and> set (requests L') \<subseteq> set (requests L)
                  \<and> length (requests L') \<le> length (requests L))
       \<and> (r \<longrightarrow> requests L' = in_window L now @ [now])
       \<and> (length (requests L') = Suc (length (in_window L now)) \<longleftrightarrow> r)"
  using acquire_requests [OF assms] by (auto simp: in_window_def)

theorem acquire_appends_only_when_admitted_witness:
  "requests (snd (acquire \<lparr>max_per_hour = 2, max_burst = 5, window_size = 3600,
                            requests = [10, 20]\<rparr> 30)) = [10, 20]
   \<and> requests (snd (acquire \<lparr>max_per_hour = 3, max_burst = 5, window_size = 3600,
                              requests = [10, 20]\<rparr> 30)) = [10, 20, 30]"
proof -
  let ?A = "\<lparr>max_per_hour = 2, max_burst = 5, window_size = 3600, requests = [10, 20 :: real]\<rparr>"
  let ?B = "\<lparr>max_per_hour = 3, max_burst = 5, window_size = 3600, requests = [10, 20 :: real]\<rparr>"
  have a: "acquire ?A 30 = (False, snd (acquire ?A 30))"
    by (simp add: acquire_def Let_def)
  have b: "acquire ?B 30 = (True, snd (acquire ?B 30))"
    by (simp add: acquire_def Let_def)
  show ?thesis
    using acquire_appends_only_when_admitted [OF a] acquire_appends_only_when_admitted [OF b]
    by (simp add: in_window_def)
qed

text \<open>
  Claim C6, evaluated on the code. With \<open>max_burst = 5\<close>, six calls within five seconds are
  all admitted, although five timestamps lie in the last 60 seconds at the sixth; and with
  five timestamps older than 60 seconds and none in the last 60 seconds, far below the hourly
  limit of 20, the call is refused. The check compares the number of timestamps \<^emph>\<open>older\<close>
  than 60 seconds with \<open>max_burst\<close>.
\<close>

theorem acquire_burst_check_at_inputs:
  "fst (acquire_calls (RateLimiter_init 20 5) [96, 97, 98, 99, 100, 101])
     = [True, True, True, True, True, True]
   \<and> length (filter (\<lambda>ts. 101 - ts \<le> (60 :: real)) [96, 97, 98, 99, 100]) = 5
   \<and> requests (snd (acquire_calls (RateLimiter_init 20 5) [0, 1, 2, 3, 4])) = [0, 1, 2, 3, 4]
   \<and> filter (\<lambda>ts. 100 - ts \<le> (60 :: real)) [0, 1, 2, 3, 4] = []
   \<and> fst (acquire (snd (acquire_calls (RateLimiter_init 20 5) [0, 1, 2, 3, 4])) 100) = False"
  by (simp add: acquire_def RateLimiter_init_def Let_def)

section \<open>The push sender\<close>

lemma two_platform_store_eval:
  "device_tokens two_platform_store ''u-1'' =
     [\<lparr>token = ''i1'', platform = ''ios'', registered_at = 2, last_used = 2,
       token_status = ''active''\<rparr>,
      \<lparr>token = ''a1'', platform = ''android'', registered_at = 1, last_used = 1,
       token_status = ''active''\<rparr>]
   \<and> blacklisted_tokens two_platform_store = (\<lambda>plat. {})"
  by (simp add: two_platform_store_def register_device_def empty_store_def Let_def)


lemma ios_store_eval:
  "device_tokens ios_store ''u-1'' =
     [\<lparr>token = ''i1'', platform = ''ios'', registered_at = 1, last_used = 1,
       token_status = ''active''\<rparr>]
   \<and> blacklisted_tokens ios_store = (\<lambda>plat. {})"
  by (simp add: ios_store_def register_device_def empty_store_def Let_def)

lemma android_store_eval:
  "device_tokens android_store ''u-1'' =
     [\<lparr>token = ''a1'', platform = ''android'', registered_at = 1, last_used = 1,
       token_status = ''active''\<rparr>]
   \<and> blacklisted_tokens android_store = (\<lambda>plat. {})"
  by (simp add: android_store_def register_device_def empty_store_def Let_def)

subsection \<open>APNS, with the handler class defined\<close>





subsection \<open>APNS, with the handler class not defined\<close>






subsection \<open>FCM\<close>





subsection \<open>The aggregate\<close>


lemma pending_transitions:
  "validate_transition PENDING SENT" "validate_transition PENDING FAILED"
  by (simp_all add: validate_transition_def valid_transitions_def)

lemmas push_eval =
  push_send_notification_def android_tokens_def ios_tokens_def active_tokens_def
  example_notification_def send_fcm_def send_apns_def max_retries_def batch_size_def
  push_handler_def update_status_def pending_transitions Let_def numeral_3_eq_3




text \<open>
  Claim C7, evaluated on the code. A user has one iOS token, which APNS rejects with
  \<open>BadDeviceToken\<close>. The first send adds the token to the iOS blacklist, and a new
  registration of the token is refused from then on; but the token stays in the list of the
  user, still active, and the send of the next notification hands it to the provider again.
  The same on the Android side, whatever the APNS library defines: a token that FCM rejects
  is blacklisted, refused at a new registration, and handed to FCM again by the next send.
\<close>

theorem push_blacklisted_token_sent_again:
  "''i1'' \<in> blacklisted_tokens
       (fst (snd (push_send_notification True ios_store fcm_rejects apns_bad_token
                    example_notification 5))) ''ios''
   \<and> fst (register_device
            (fst (snd (push_send_notification True ios_store fcm_rejects apns_bad_token
                         example_notification 5))) ''u-2'' ''i1'' ''ios'' 6) = False
   \<and> snd (snd (snd (push_send_notification True
         (fst (snd (push_send_notification True ios_store fcm_rejects apns_bad_token
                      example_notification 5)))
         fcm_rejects apns_bad_token (example_notification\<lparr>notification_id := ''n-2''\<rparr>) 9)))
       = [''i1'']
   \<and> ''a1'' \<in> blacklisted_tokens
       (fst (snd (push_send_notification False android_store fcm_rejects apns_accepts
                    example_notification 5))) ''android''
   \<and> fst (register_device
            (fst (snd (push_send_notification False android_store fcm_rejects apns_accepts
                         example_notification 5))) ''u-2'' ''a1'' ''android'' 6) = False
   \<and> snd (snd (snd (push_send_notification False
         (fst (snd (push_send_notification False android_store fcm_rejects apns_accepts
                      example_notification 5)))
         fcm_rejects apns_accepts (example_notification\<lparr>notification_id := ''n-2''\<rparr>) 9)))
       = [''a1'']"
  by (simp add: push_eval ios_store_eval android_store_eval fcm_rejects_def apns_bad_token_def
      apns_accepts_def register_device_def)

section \<open>The orchestrator\<close>

text \<open>
  Claim C3, evaluated on the code. For the outcome map in which push and email both
  succeeded, \<open>determine_final_status\<close> returns \<open>None\<close>, not the status sent;
  \<open>update_status\<close> refuses \<open>None\<close> with the \<open>ValueError\<close>; and the endpoint answers
  with \<open>HTTPException(500)\<close>, the notification still pending.
\<close>

theorem determine_final_status_returns_none:
  "determine_final_status [(''push'', PyStr ''sent''), (''email'', PyStr ''sent'')] = None
   \<and> fst (update_status_dyn example_notification
            (determine_final_status [(''push'', PyStr ''sent''), (''email'', PyStr ''sent'')]) None
            (Some [(''channel_statuses'',
                    PyDict [(''push'', PyStr ''sent''), (''email'', PyStr ''sent'')])]) 5)
       = Some (ValueError ''Invalid status transition from pending to None'')
   \<and> fst (send_notification example_notification ''c-1'' 4 5)
       = Inl (HTTPException 500 ''Notification processing failed'')
   \<and> status (snd (send_notification example_notification ''c-1'' 4 5)) = PENDING"
  by (simp add: determine_final_status_def update_status_dyn_def send_notification_def
      determine_delivery_channels_def example_notification_def Let_def)

section \<open>The email and SMS senders\<close>

lemma send_email_attempt_invalid:
  "env_validate_email env = Inl (EmailNotValidError m) \<Longrightarrow>
     send_email_attempt self env to_email = (Inr False, self)"
  by (simp add: send_email_attempt_def)

text \<open>
  A service without limiters, as the constructor leaves it, raises \<open>TypeError\<close> for every
  valid address, and is still without limiters afterwards: the keyword
  \<open>max_emails_per_hour\<close> of \<open>RATE_LIMIT_CONFIG\<close> is not a parameter of \<open>RateLimiter\<close>.
\<close>

lemma send_email_attempt_no_limiter:
  assumes "rate_limiters self = []" and "env_validate_email env = Inr addr"
  shows "(\<exists>m. fst (send_email_attempt self env to_email) = Inl (TypeError m))
       \<and> rate_limiters (snd (send_email_attempt self env to_email)) = []"
  using assms
  by (auto simp: send_email_attempt_def RateLimiter_kwargs_def RATE_LIMIT_CONFIG_def
      email_reraise_def split: option.splits)

text \<open>
  The push sender raises for a notification that has failed before: no transition leaves
  the status failed, so the \<open>update_status\<close> of the body raises, and so does the one of the
  handler.
\<close>

lemma failed_transitions: "\<not> validate_transition FAILED new"
  by (simp add: validate_transition_def valid_transitions_def)

lemma push_send_notification_failed_raises:
  assumes "status n = FAILED"
  shows "\<exists>m. fst (push_send_notification cls st fcm apns n now) = Inl (ValueError m)"
  using assms
  by (auto simp: push_send_notification_def push_handler_def update_status_def Let_def
      failed_transitions split: prod.splits)

text \<open>
  \<open>send_sms\<close> returns an outcome whatever its body raises; but \<open>SMSService\<close> cannot be
  constructed, its table of limits names a member that \<open>NotificationType\<close> does not have.
\<close>

lemma send_sms_returns:
  "\<exists>outcome. fst (send_sms self env phone_number msg ntype meta enc) = Inr outcome"
  by (auto simp: send_sms_def split: prod.splits sum.splits exn.splits)

lemma SMSService_init_raises: "SMSService_init = Inl (AttributeError ''VERIFICATION_CODE'')"
  by (simp add: SMSService_init_def NotificationType_member_def)

lemmas email_eval =
  send_email_def RETRY_max_attempts_def numeral_3_eq_3 send_email_attempt_def
  fresh_email_service_def env_delivers_def env_invalid_address_def
  RateLimiter_kwargs_def RATE_LIMIT_CONFIG_def email_reraise_def Let_def

text \<open>
  Claim C4, evaluated on the code. \<open>send_email\<close> to a valid address, on a service as its
  constructor leaves it, raises: each of the three attempts raises the \<open>TypeError\<close> of
  \<open>RateLimiter(**RATE_LIMIT_CONFIG)\<close>, the handler raises it again, and the retry decorator
  ends with \<open>RetryError\<close> (a third attempt that returns ends the call, a fourth is not
  made). The push sender raises \<open>ValueError\<close> for a notification whose status is failed.
\<close>

theorem senders_raise_at_inputs:
  "fst (send_email fresh_email_service (\<lambda>attempt. env_delivers) ''a@fpbe.com'')
     = Inl (RetryError (TypeError
         ''__init__() got an unexpected keyword argument max_emails_per_hour''))
   \<and> snd (send_email fresh_email_service (\<lambda>attempt. env_delivers) ''a@fpbe.com'')
     = fresh_email_service
   \<and> fst (send_email fresh_email_service
            (\<lambda>attempt. if attempt \<le> 2 then env_delivers else env_invalid_address) ''a@fpbe.com'')
     = Inr False
   \<and> fst (send_email fresh_email_service
            (\<lambda>attempt. if attempt \<le> 3 then env_delivers else env_invalid_address) ''a@fpbe.com'')
     = Inl (RetryError (TypeError
         ''__init__() got an unexpected keyword argument max_emails_per_hour''))
   \<and> fst (push_send_notification True two_platform_store fcm_accepts apns_accepts
            (example_notification\<lparr>status := FAILED\<rparr>) 5)
     = Inl (ValueError ''Invalid status transition from failed to failed'')
   \<and> fst (push_send_notification False two_platform_store fcm_accepts apns_accepts
            (example_notification\<lparr>status := FAILED\<rparr>) 5)
     = Inl (ValueError ''Invalid status transition from failed to failed'')"
  by (simp add: email_eval push_eval two_platform_store_eval fcm_accepts_def apns_accepts_def
      failed_transitions)

section \<open>The template renderer\<close>

text \<open>Rendering raises nothing but the error of \<open>StrictUndefined.__str__\<close>.\<close>

lemma render_segments_raises:
  "render_segments t ctx = Inl e \<Longrightarrow>
     \<exists>missing. e = SecurityError (''Undefined template variable: '' @ missing)
                \<and> map_of ctx missing = None"
  and render_segment_raises: "render_segment seg ctx = Inl e \<Longrightarrow>
     \<exists>missing. e = SecurityError (''Undefined template variable: '' @ missing)
                \<and> map_of ctx missing = None"
  by (induction t ctx and seg ctx arbitrary: e and e
      rule: render_segments_render_segment.induct)
     (auto simp: StrictUndefined_str_def split: sum.splits option.splits if_splits)

text \<open>A template that prints, at its top, a variable the context lacks is not rendered.\<close>

lemma render_segments_undefined:
  "Var name \<in> set t \<Longrightarrow> map_of ctx name = None \<Longrightarrow>
     \<exists>missing. render_segments t ctx
                  = Inl (SecurityError (''Undefined template variable: '' @ missing))"
proof (induction t)
  case Nil
  then show ?case by simp
next
  case (Cons seg rest)
  show ?case
  proof (cases "render_segment seg ctx")
    case (Inl e)
    then show ?thesis
      using render_segment_raises [of seg ctx e] by auto
  next
    case (Inr printed)
    have "seg \<noteq> Var name"
      using Inr Cons.prems(2) by (auto simp: StrictUndefined_str_def)
    then have "Var name \<in> set rest"
      using Cons.prems(1) by auto
    then obtain missing where
      "render_segments rest ctx = Inl (SecurityError (''Undefined template variable: '' @ missing))"
      using Cons.IH Cons.prems(2) by blast
    with Inr show ?thesis by simp
  qed
qed

lemma render_template_prints_undefined:
  assumes "get_template_path fs ntype channel locale = Inr template_path"
    and "find_template self fs template_path locale = Inr t"
    and "Var name \<in> set t"
    and "map_of (sanitize_context context) name = None"
  shows "\<exists>missing. fst (render_template self fs ntype channel context locale)
            = Inl (SecurityError (''Undefined template variable: '' @ missing))"
  using render_segments_undefined [OF assms(3,4)] assms(1,2)
  by (auto simp: render_template_def Let_def split: option.splits)

lemmas template_eval =
  render_template_def get_template_path_def find_template_def cache_key_def
  sms_template_dir_def SUPPORTED_LOCALES_def sanitize_context_def startswith_underscore_def
  StrictUndefined_str_def StrictUndefined_bool_def context_value_str_def context_value_bool_def
  Let_def

text \<open>
  Claim C9, evaluated on the code. The template tests \<open>promo\<close> and prints \<open>amount\<close>. With
  a context that has \<open>amount\<close> and lacks \<open>promo\<close>, the sanitized context lacks \<open>promo\<close>
  too, and the call returns the text without the promotion: the undefined variable that the
  template references raises nothing. With a context that lacks \<open>amount\<close>, the call raises
  the \<open>SecurityError\<close>.
\<close>

theorem render_template_tests_undefined:
  "map_of (sanitize_context [(''amount'', CtxStr ''5 Pi'')]) ''promo'' = None
   \<and> fst (render_template \<lparr>template_cache = []\<rparr> sms_template_dir TRANSACTION_ALERT ''sms''
            [(''amount'', CtxStr ''5 Pi'')] None) = Inr ''You paid 5 Pi''
   \<and> fst (render_template \<lparr>template_cache = []\<rparr> sms_template_dir TRANSACTION_ALERT ''sms''
            [(''promo'', CtxStr ''-10%''), (''amount'', CtxStr ''5 Pi'')] None)
       = Inr ''Promo: -10%. You paid 5 Pi''
   \<and> fst (render_template \<lparr>template_cache = []\<rparr> sms_template_dir TRANSACTION_ALERT ''sms''
            [(''user_id'', CtxStr ''u-1'')] None)
       = Inl (SecurityError ''Undefined template variable: amount'')"
  by (simp add: template_eval)

end
